theory Spec2Isabelle
  imports Main
begin

section \<open>Python values and strings\<close>

text \<open>
  A Python string is modelled as a \<open>string\<close> whose characters are the code points
  below 256 (Latin-1). The code points beyond 255 that the program names (the en dash and
  the em dash of its separator sets) cannot occur in such a string, so they are absent
  from the character sets below. Python integers are unbounded: \<open>int\<close>. Floating-point
  values are not part of the value type.
\<close>

datatype pyval =
    PNone
  | PBool bool
  | PInt int
  | PStr string
  | PList "pyval list"
  | PDict "(pyval \<times> pyval) list"

datatype error = TypeError

definition is_digit :: "char \<Rightarrow> bool" where
  \<comment> \<open>the regular-expression class \<open>\d\<close> on code points below 256: the ASCII digits\<close>
  "is_digit c = (let n = (of_char c :: nat) in 48 \<le> n \<and> n \<le> 57)"

definition digit_val :: "char \<Rightarrow> nat" where
  "digit_val c = of_char c - 48"

definition is_space :: "char \<Rightarrow> bool" where
  \<comment> \<open>\<open>str.isspace\<close> and the regular-expression class \<open>\s\<close> on code points below 256\<close>
  "is_space c = (let n = (of_char c :: nat) in
     (9 \<le> n \<and> n \<le> 13) \<or> (28 \<le> n \<and> n \<le> 32) \<or> n = 133 \<or> n = 160)"

definition is_word :: "char \<Rightarrow> bool" where
  \<comment> \<open>the regular-expression class \<open>\w\<close>: \<open>str.isalnum\<close> or the underscore\<close>
  "is_word c = (let n = (of_char c :: nat) in
     (48 \<le> n \<and> n \<le> 57) \<or> (65 \<le> n \<and> n \<le> 90) \<or> n = 95 \<or> (97 \<le> n \<and> n \<le> 122)
     \<or> n = 170 \<or> n = 178 \<or> n = 179 \<or> n = 181 \<or> n = 185 \<or> n = 186
     \<or> (188 \<le> n \<and> n \<le> 190) \<or> (192 \<le> n \<and> n \<le> 214) \<or> (216 \<le> n \<and> n \<le> 246)
     \<or> 248 \<le> n)"

definition lower_char :: "char \<Rightarrow> char" where
  \<comment> \<open>\<open>str.lower\<close> on one code point below 256\<close>
  "lower_char c = (let n = (of_char c :: nat) in
     if (65 \<le> n \<and> n \<le> 90) \<or> (192 \<le> n \<and> n \<le> 222 \<and> n \<noteq> 215) then char_of (n + 32) else c)"

definition lower :: "string \<Rightarrow> string" where
  "lower s = map lower_char s"

definition strip :: "string \<Rightarrow> string" where
  \<comment> \<open>\<open>str.strip()\<close>: whitespace removed at both ends\<close>
  "strip s = rev (dropWhile is_space (rev (dropWhile is_space s)))"

definition strip_chars :: "string \<Rightarrow> string \<Rightarrow> string" where
  \<comment> \<open>\<open>str.strip(chars)\<close>\<close>
  "strip_chars cs s = rev (dropWhile (\<lambda>c. c \<in> set cs) (rev (dropWhile (\<lambda>c. c \<in> set cs) s)))"

fun join :: "string \<Rightarrow> string list \<Rightarrow> string" where
  "join sep [] = []"
| "join sep [x] = x"
| "join sep (x # y # ys) = x @ sep @ join sep (y # ys)"

subsection \<open>Decimal text of integers: \<open>str(int)\<close> and \<open>int(str)\<close>\<close>

definition digit_char :: "nat \<Rightarrow> char" where
  "digit_char d = char_of (48 + d)"

fun str_nat :: "nat \<Rightarrow> string" where
  "str_nat n = (if n < 10 then [digit_char n] else str_nat (n div 10) @ [digit_char (n mod 10)])"

declare str_nat.simps [simp del]

definition str_int :: "int \<Rightarrow> string" where
  "str_int i = (if i < 0 then CHR ''-'' # str_nat (nat (- i)) else str_nat (nat i))"

fun int_digits :: "string \<Rightarrow> nat \<Rightarrow> nat option" where
  \<comment> \<open>digits, with single underscores allowed between two digits\<close>
  "int_digits [] acc = Some acc"
| "int_digits (c # cs) acc =
     (if is_digit c then int_digits cs (10 * acc + digit_val c)
      else if c = CHR ''_'' \<and> cs \<noteq> [] \<and> is_digit (hd cs) then int_digits cs acc
      else None)"

definition parse_nat :: "string \<Rightarrow> nat option" where
  "parse_nat s = (case s of [] \<Rightarrow> None | c # cs \<Rightarrow> if is_digit c then int_digits s 0 else None)"

definition is_int_space :: "char \<Rightarrow> bool" where
  \<comment> \<open>the white space that \<open>int()\<close> accepts around a number: the ASCII white space and, beyond
      ASCII, the Unicode white space (133 and 160 below 256). The separators 28 to 31, which
      \<open>str.strip()\<close> removes, are not accepted: \<open>int('\x1c5')\<close> raises ValueError\<close>
  "is_int_space c = (let n = (of_char c :: nat) in (9 \<le> n \<and> n \<le> 13) \<or> n = 32 \<or> n = 133 \<or> n = 160)"

definition int_of_str :: "string \<Rightarrow> int option" where
  \<comment> \<open>\<open>int(s)\<close> in base 10; \<open>None\<close> where Python raises ValueError\<close>
  "int_of_str s =
     (case rev (dropWhile is_int_space (rev (dropWhile is_int_space s))) of
        [] \<Rightarrow> None
      | c # cs \<Rightarrow>
          if c = CHR ''-'' then map_option (\<lambda>n. - int n) (parse_nat cs)
          else if c = CHR ''+'' then map_option int (parse_nat cs)
          else map_option int (parse_nat (c # cs)))"

fun py_int :: "pyval \<Rightarrow> int option" where
  \<comment> \<open>\<open>int(p)\<close>; \<open>None\<close> where Python raises (TypeError or ValueError)\<close>
  "py_int (PInt i) = Some i"
| "py_int (PBool b) = Some (if b then 1 else 0)"
| "py_int (PStr s) = int_of_str s"
| "py_int PNone = None"
| "py_int (PList xs) = None"
| "py_int (PDict kvs) = None"

subsection \<open>\<open>str()\<close> and \<open>repr()\<close>\<close>

definition hex_char :: "nat \<Rightarrow> char" where
  "hex_char n = (if n < 10 then char_of (48 + n) else char_of (87 + n))"

definition is_printable :: "char \<Rightarrow> bool" where
  "is_printable c = (let n = (of_char c :: nat) in (32 \<le> n \<and> n < 127) \<or> (161 \<le> n \<and> n \<noteq> 173))"

definition repr_char :: "char \<Rightarrow> char \<Rightarrow> string" where
  "repr_char q c =
     (if c = CHR 0x5C then [CHR 0x5C, CHR 0x5C]
      else if c = q then [CHR 0x5C, q]
      else if c = CHR 0x09 then [CHR 0x5C, CHR ''t'']
      else if c = CHR 0x0A then [CHR 0x5C, CHR ''n'']
      else if c = CHR 0x0D then [CHR 0x5C, CHR ''r'']
      else if is_printable c then [c]
      else [CHR 0x5C, CHR ''x'', hex_char (of_char c div 16), hex_char (of_char c mod 16)])"

definition repr_str :: "string \<Rightarrow> string" where
  "repr_str s =
     (let q = (if CHR 0x27 \<in> set s \<and> CHR 0x22 \<notin> set s then CHR 0x22 else CHR 0x27)
      in q # concat (map (repr_char q) s) @ [q])"

fun py_repr :: "pyval \<Rightarrow> string" where
  "py_repr PNone = ''None''"
| "py_repr (PBool b) = (if b then ''True'' else ''False'')"
| "py_repr (PInt i) = str_int i"
| "py_repr (PStr s) = repr_str s"
| "py_repr (PList xs) = ''['' @ join '', '' (map py_repr xs) @ '']''"
| "py_repr (PDict kvs) =
     ''{'' @ join '', '' (map (\<lambda>kv. py_repr (fst kv) @ '': '' @ py_repr (snd kv)) kvs) @ ''}''"

definition py_str :: "pyval \<Rightarrow> string" where
  "py_str v = (case v of PStr s \<Rightarrow> s | _ \<Rightarrow> py_repr v)"

fun truthy :: "pyval \<Rightarrow> bool" where
  "truthy PNone = False"
| "truthy (PBool b) = b"
| "truthy (PInt i) = (i \<noteq> 0)"
| "truthy (PStr s) = (s \<noteq> [])"
| "truthy (PList xs) = (xs \<noteq> [])"
| "truthy (PDict kvs) = (kvs \<noteq> [])"

fun py_iter :: "pyval \<Rightarrow> error + pyval list" where
  \<comment> \<open>the elements a \<open>for\<close> loop sees; TypeError for a value that is not iterable\<close>
  "py_iter (PList xs) = Inr xs"
| "py_iter (PStr s) = Inr (map (\<lambda>c. PStr [c]) s)"
| "py_iter (PDict kvs) = Inr (map fst kvs)"
| "py_iter PNone = Inl TypeError"
| "py_iter (PBool b) = Inl TypeError"
| "py_iter (PInt i) = Inl TypeError"

subsection \<open>Dictionaries\<close>

text \<open>
  A Python dictionary keeps its keys in insertion order: an association list with distinct
  keys. Assigning to a key that is present keeps its position; a new key goes to the end.
\<close>

fun dict_get :: "('k \<times> 'v) list \<Rightarrow> 'k \<Rightarrow> 'v option" where
  "dict_get [] k = None"
| "dict_get ((k', v) # kvs) k = (if k' = k then Some v else dict_get kvs k)"

fun dict_set :: "('k \<times> 'v) list \<Rightarrow> 'k \<Rightarrow> 'v \<Rightarrow> ('k \<times> 'v) list" where
  "dict_set [] k v = [(k, v)]"
| "dict_set ((k', v') # kvs) k v = (if k' = k then (k, v) # kvs else (k', v') # dict_set kvs k v)"

definition dict_keys :: "('k \<times> 'v) list \<Rightarrow> 'k list" where
  "dict_keys d = map fst d"

definition fromkeys :: "'a list \<Rightarrow> 'a list" where
  \<comment> \<open>\<open>list(dict.fromkeys(xs))\<close>: the first occurrence of each element, in order\<close>
  "fromkeys xs = rev (remdups (rev xs))"

section \<open>The document model (lib/pdf\_document\_object\_model.py)\<close>

text \<open>
  The keys of \<open>working_sheets\<close> are Python integers, and a Python \<open>bool\<close> is an integer
  too (\<open>isinstance(True, int)\<close> holds), so a key is an \<open>int\<close> or a \<open>bool\<close>. Two keys are
  the same key of a dictionary when their integer values are equal (\<open>True == 1\<close>, and both
  hash alike); the dictionary keeps the key object that was inserted first, and \<open>str\<close>
  of a \<open>bool\<close> key is \<open>'True'\<close> or \<open>'False'\<close>.
\<close>

datatype id_key = IntKey int | BoolKey bool

fun key_int :: "id_key \<Rightarrow> int" where
  "key_int (IntKey i) = i"
| "key_int (BoolKey b) = (if b then 1 else 0)"



fun ws_get :: "(id_key \<times> 'v) list \<Rightarrow> id_key \<Rightarrow> 'v option" where
  \<comment> \<open>lookup in a dictionary whose keys are Python integers\<close>
  "ws_get [] k = None"
| "ws_get ((k', v) # kvs) k = (if key_int k' = key_int k then Some v else ws_get kvs k)"

fun ws_set :: "(id_key \<times> 'v) list \<Rightarrow> id_key \<Rightarrow> 'v \<Rightarrow> (id_key \<times> 'v) list" where
  \<comment> \<open>assignment: a key that is present keeps its position and its key object\<close>
  "ws_set [] k v = [(k, v)]"
| "ws_set ((k', v') # kvs) k v =
     (if key_int k' = key_int k then (k', v) # kvs else (k', v') # ws_set kvs k v)"

record pdf_document =
  pdf_filename :: string
  pdf_path :: string
  working_sheets :: "(id_key \<times> (string \<times> int list) list) list"

definition new_document :: "string \<Rightarrow> string \<Rightarrow> pdf_document" where
  "new_document fn path = \<lparr>pdf_filename = fn, pdf_path = path, working_sheets = []\<rparr>"

definition or_empty :: "pyval \<Rightarrow> pyval" where
  \<comment> \<open>\<open>pages or []\<close>\<close>
  "or_empty v = (if truthy v then v else PList [])"

definition normalize_pages :: "pyval \<Rightarrow> error + int list" where
  "normalize_pages pages =
     (case py_iter (or_empty pages) of
        Inl e \<Rightarrow> Inl e
      | Inr ps \<Rightarrow>
          Inr (sort (fromkeys (filter (\<lambda>pi. pi > 0) (List.map_filter py_int ps)))))"

definition leading_digits :: "string \<Rightarrow> string" where
  \<comment> \<open>group 1 of \<open>re.match(r'^\s*(\d+)', s)\<close>; empty when there is no match\<close>
  "leading_digits s = takeWhile is_digit (dropWhile is_space s)"

definition coerce_id_to_int :: "pyval \<Rightarrow> id_key" where
  "coerce_id_to_int id_value =
     (case id_value of
        PNone \<Rightarrow> IntKey 0
      | PInt i \<Rightarrow> IntKey i
      | PBool b \<Rightarrow> BoolKey b
      | _ \<Rightarrow>
          (let s = strip (py_str id_value) in
           if s = [] then IntKey 0
           else case int_of_str s of
                  Some i \<Rightarrow> IntKey i
                | None \<Rightarrow>
                    (if leading_digits s = [] then IntKey 0
                     else case int_of_str (leading_digits s) of Some i \<Rightarrow> IntKey i | None \<Rightarrow> IntKey 0)))"

definition merge_pages :: "int list \<Rightarrow> int list \<Rightarrow> int list" where
  \<comment> \<open>\<open>sorted(dict.fromkeys(existing + new_pages))\<close>\<close>
  "merge_pages existing new_pages = sort (fromkeys (existing @ new_pages))"

definition add_working_sheet :: "pyval \<Rightarrow> string \<Rightarrow> pyval \<Rightarrow> pdf_document \<Rightarrow> error + pdf_document" where
  "add_working_sheet idv name pages d =
     (if name = [] then Inr d
      else
        let id_key = coerce_id_to_int idv in
        case normalize_pages pages of
          Inl e \<Rightarrow> Inl e
        | Inr new_pages \<Rightarrow>
            (let bucket = (case ws_get (working_sheets d) id_key of None \<Rightarrow> [] | Some b \<Rightarrow> b);
                 bucket' = (case dict_get bucket name of
                              Some existing \<Rightarrow> dict_set bucket name (merge_pages existing new_pages)
                            | None \<Rightarrow> dict_set bucket name new_pages)
             in Inr (d\<lparr>working_sheets := ws_set (working_sheets d) id_key bucket'\<rparr>)))"

definition get_pages :: "pyval \<Rightarrow> string \<Rightarrow> pdf_document \<Rightarrow> int list" where
  "get_pages idv name d =
     (case ws_get (working_sheets d) (coerce_id_to_int idv) of
        None \<Rightarrow> []
      | Some b \<Rightarrow> (case dict_get b name of None \<Rightarrow> [] | Some ps \<Rightarrow> ps))"


definition dict_get_default :: "('k \<times> 'v) list \<Rightarrow> 'k \<Rightarrow> 'v \<Rightarrow> 'v" where
  "dict_get_default d k dflt = (case dict_get d k of None \<Rightarrow> dflt | Some v \<Rightarrow> v)"

fun from_dict_names :: "id_key \<Rightarrow> (pyval \<times> pyval) list \<Rightarrow> pdf_document \<Rightarrow> error + pdf_document" where
  \<comment> \<open>the inner loop \<open>for name, pages in val.items()\<close>\<close>
  "from_dict_names id_key [] doc = Inr doc"
| "from_dict_names id_key ((name, pages) # rest) doc =
     (case normalize_pages (or_empty pages) of
        Inl e \<Rightarrow> Inl e
      | Inr norm_pages \<Rightarrow>
          if norm_pages \<noteq> [] then
            (let bucket = (case ws_get (working_sheets doc) id_key of None \<Rightarrow> [] | Some b \<Rightarrow> b)
             in from_dict_names id_key rest
                  (doc\<lparr>working_sheets :=
                         ws_set (working_sheets doc) id_key (dict_set bucket (py_str name) norm_pages)\<rparr>))
          else from_dict_names id_key rest doc)"

fun from_dict_ids :: "(pyval \<times> pyval) list \<Rightarrow> pdf_document \<Rightarrow> error + pdf_document" where
  \<comment> \<open>the outer loop \<open>for raw_id_key, val in ws.items()\<close>\<close>
  "from_dict_ids [] doc = Inr doc"
| "from_dict_ids ((raw_id_key, val) # rest) doc =
     (case val of
        PDict names \<Rightarrow>
          (case from_dict_names (coerce_id_to_int raw_id_key) names doc of
             Inl e \<Rightarrow> Inl e
           | Inr doc' \<Rightarrow> from_dict_ids rest doc')
      | _ \<Rightarrow> from_dict_ids rest doc)"

definition from_dict :: "(pyval \<times> pyval) list \<Rightarrow> error + pdf_document" where
  "from_dict data =
     (let doc = new_document (py_str (dict_get_default data (PStr ''pdf_filename'') (PStr [])))
                             (py_str (dict_get_default data (PStr ''pdf_path'') (PStr [])));
          ws = or_empty (dict_get_default data (PStr ''working_sheets'') PNone)
      in case ws of
           PDict items \<Rightarrow> from_dict_ids items doc
         | _ \<Rightarrow> Inr doc)"

subsection \<open>Sequences of calls, and what a well-formed model is\<close>

fun add_all :: "(pyval \<times> string \<times> pyval) list \<Rightarrow> pdf_document \<Rightarrow> pdf_document" where
  \<comment> \<open>a caller that makes the calls one after the other and, as \<open>identify_working_sheets\<close>
      does, catches the exception of a call that raises (the model is then as it was)\<close>
  "add_all [] d = d"
| "add_all ((idv, name, pages) # calls) d =
     add_all calls (case add_working_sheet idv name pages d of Inl e \<Rightarrow> d | Inr d' \<Rightarrow> d')"

definition pages_ok :: "int list \<Rightarrow> bool" where
  \<comment> \<open>strictly ascending (hence free of duplicates), 1-based page numbers\<close>
  "pages_ok ps = (sorted_wrt (<) ps \<and> (\<forall>p \<in> set ps. 1 \<le> p))"

definition lists_ok :: "pdf_document \<Rightarrow> bool" where
  "lists_ok d = (\<forall>(k, names) \<in> set (working_sheets d). \<forall>(n, ps) \<in> set names. pages_ok ps)"






section \<open>Regular expressions\<close>

text \<open>
  The part of Python's \<open>re\<close> module that the program uses, as a backtracking matcher.
  \<open>rmatch r st\<close> lists every way in which \<open>r\<close> matches at the state \<open>st\<close>, in the order
  in which a backtracking engine tries them, so the head of the list is the match that
  Python reports: \<open>Alt\<close> prefers its left branch, a greedy \<open>Star\<close> prefers one more
  iteration and a lazy one prefers to stop. A state is the position, the character before
  it, the rest of the text and the groups captured so far. All the patterns of the program
  match at least one character.
\<close>

datatype re =
    Cls "char \<Rightarrow> bool"
  | Eps
  | Seq re re
  | Alt re re
  | Star bool re
  | Grp nat re
  | WordB
  | Bol
  | Eol

type_synonym caps = "(nat \<times> nat \<times> nat) list"
type_synonym mstate = "nat \<times> char option \<times> string \<times> caps"

definition at_word_boundary :: "char option \<Rightarrow> string \<Rightarrow> bool" where
  "at_word_boundary prev rest =
     ((case prev of None \<Rightarrow> False | Some c \<Rightarrow> is_word c)
        \<noteq> (case rest of [] \<Rightarrow> False | c # cs \<Rightarrow> is_word c))"

function rmatch :: "re \<Rightarrow> mstate \<Rightarrow> mstate list" where
  "rmatch (Cls P) (pos, prev, rest, caps) =
     (case rest of [] \<Rightarrow> [] | c # cs \<Rightarrow> if P c then [(Suc pos, Some c, cs, caps)] else [])"
| "rmatch Eps st = [st]"
| "rmatch (Seq a b) st = concat (map (rmatch b) (rmatch a st))"
| "rmatch (Alt a b) st = rmatch a st @ rmatch b st"
| "rmatch (Star greedy a) (pos, prev, rest, caps) =
     (let more = concat (map (rmatch (Star greedy a))
                   (filter (\<lambda>(pos', prev', rest', caps'). length rest' < length rest)
                      (rmatch a (pos, prev, rest, caps))))
      in if greedy then more @ [(pos, prev, rest, caps)] else (pos, prev, rest, caps) # more)"
| "rmatch (Grp n a) (pos, prev, rest, caps) =
     map (\<lambda>(pos', prev', rest', caps'). (pos', prev', rest', (n, pos, pos') # caps'))
       (rmatch a (pos, prev, rest, caps))"
| "rmatch WordB (pos, prev, rest, caps) =
     (if at_word_boundary prev rest then [(pos, prev, rest, caps)] else [])"
| "rmatch Bol (pos, prev, rest, caps) = (if pos = 0 then [(pos, prev, rest, caps)] else [])"
| "rmatch Eol (pos, prev, rest, caps) =
     (if rest = [] \<or> rest = [CHR 0x0A] then [(pos, prev, rest, caps)] else [])"
  by pat_completeness auto
termination
  by (relation "inv_image (less_than <*lex*> less_than)
        (\<lambda>(r, (pos, prev, rest, caps)). (size r, length rest))") auto

fun search_aux :: "re \<Rightarrow> nat \<Rightarrow> char option \<Rightarrow> string \<Rightarrow> (nat \<times> nat \<times> caps) option" where
  "search_aux r pos prev [] =
     (case rmatch r (pos, prev, [], []) of [] \<Rightarrow> None | (e, _, _, c) # _ \<Rightarrow> Some (pos, e, c))"
| "search_aux r pos prev (x # xs) =
     (case rmatch r (pos, prev, x # xs, []) of
        [] \<Rightarrow> search_aux r (Suc pos) (Some x) xs
      | (e, _, _, c) # _ \<Rightarrow> Some (pos, e, c))"

definition search :: "re \<Rightarrow> string \<Rightarrow> (nat \<times> nat \<times> caps) option" where
  "search r s = search_aux r 0 None s"

fun finditer_aux :: "re \<Rightarrow> nat \<Rightarrow> nat \<Rightarrow> char option \<Rightarrow> string \<Rightarrow> (nat \<times> nat \<times> caps) list" where
  "finditer_aux r nxt pos prev [] =
     (if pos < nxt then []
      else case rmatch r (pos, prev, [], []) of [] \<Rightarrow> [] | (e, _, _, c) # _ \<Rightarrow> [(pos, e, c)])"
| "finditer_aux r nxt pos prev (x # xs) =
     (if pos < nxt then finditer_aux r nxt (Suc pos) (Some x) xs
      else case rmatch r (pos, prev, x # xs, []) of
             [] \<Rightarrow> finditer_aux r nxt (Suc pos) (Some x) xs
           | (e, _, _, c) # _ \<Rightarrow> (pos, e, c) # finditer_aux r (max e (Suc pos)) (Suc pos) (Some x) xs)"

definition finditer :: "re \<Rightarrow> string \<Rightarrow> (nat \<times> nat \<times> caps) list" where
  "finditer r s = finditer_aux r 0 0 None s"

definition slice :: "string \<Rightarrow> nat \<Rightarrow> nat \<Rightarrow> string" where
  "slice s a b = take (b - a) (drop a s)"

definition group :: "string \<Rightarrow> (nat \<times> nat \<times> caps) \<Rightarrow> nat \<Rightarrow> string option" where
  "group s m n = (case dict_get (snd (snd m)) n of None \<Rightarrow> None | Some (a, b) \<Rightarrow> Some (slice s a b))"

fun sub_aux :: "string \<Rightarrow> string \<Rightarrow> nat \<Rightarrow> (nat \<times> nat \<times> caps) list \<Rightarrow> string" where
  "sub_aux repl s pos [] = drop pos s"
| "sub_aux repl s pos ((a, b, c) # ms) = slice s pos a @ repl @ sub_aux repl s b ms"

definition re_sub :: "re \<Rightarrow> string \<Rightarrow> string \<Rightarrow> string" where
  "re_sub r repl s = sub_aux repl s 0 (finditer r s)"

definition seqs :: "re list \<Rightarrow> re" where
  "seqs rs = foldr Seq rs Eps"

definition opt :: "re \<Rightarrow> re" where
  "opt r = Alt r Eps"

definition plus :: "bool \<Rightarrow> re \<Rightarrow> re" where
  "plus greedy r = Seq r (Star greedy r)"

definition rep_1_4 :: "re \<Rightarrow> re" where
  "rep_1_4 r = Seq r (opt (Seq r (opt (Seq r (opt r)))))"

definition ci :: "char \<Rightarrow> char \<Rightarrow> bool" where
  "ci c x = (lower_char x = lower_char c)"

definition lit_ci :: "string \<Rightarrow> re" where
  "lit_ci s = seqs (map (\<lambda>c. Cls (ci c)) s)"


section \<open>The workbook handler (lib/workbooks/F42\_Beltz\_TT\_Zwangsstoerungen\_Fricke.py)\<close>

text \<open>
  The pages are the list of page texts that \<open>read_pdf\<close> returns (\<open>page_text\<close> is the
  identity on a string); page numbers are 1-based integers.
\<close>

definition is_ctrl :: "char \<Rightarrow> bool" where
  "is_ctrl c = (let n = (of_char c :: nat) in n \<le> 31 \<or> n = 127)"

definition clean_header_text :: "string \<Rightarrow> string" where
  "clean_header_text s =
     (if s = [] then []
      else
        let s1 = re_sub (plus True (Cls is_ctrl)) '' '' s;
            s2 = map (\<lambda>c. if c = CHR 0xA0 then CHR '' '' else c) s1
        in strip (re_sub (plus True (Cls is_space)) '' '' s2))"

definition ab_id_re :: re where
  "ab_id_re = seqs [WordB, lit_ci ''AB'', Star True (Cls is_space), Grp 1 (rep_1_4 (Cls is_digit)), WordB]"

definition ab_token_name_re :: re where
  "ab_token_name_re = seqs [WordB, lit_ci ''AB'', Star True (Cls is_space), rep_1_4 (Cls is_digit), WordB]"

definition frac_re :: re where
  "frac_re = seqs [WordB, Grp 1 (rep_1_4 (Cls is_digit)), Star True (Cls is_space), Cls (\<lambda>c. c = CHR ''/''),
                   Star True (Cls is_space), Grp 2 (rep_1_4 (Cls is_digit)), WordB]"

definition frac_end_re :: re where
  "frac_end_re = seqs [WordB, rep_1_4 (Cls is_digit), Star True (Cls is_space), Cls (\<lambda>c. c = CHR ''/''),
                   Star True (Cls is_space), rep_1_4 (Cls is_digit), WordB, Eol]"

definition num_end_re :: re where
  "num_end_re = seqs [WordB, rep_1_4 (Cls is_digit), Eol]"

definition group_int :: "string \<Rightarrow> (nat \<times> nat \<times> caps) option \<Rightarrow> nat \<Rightarrow> int option" where
  "group_int s m n = (case m of None \<Rightarrow> None | Some mm \<Rightarrow> (case group s mm n of None \<Rightarrow> None | Some g \<Rightarrow> int_of_str g))"

definition parse_ab_header :: "string \<Rightarrow> int option \<times> string \<times> int option \<times> int option" where
  "parse_ab_header header_text =
     (let txt = clean_header_text header_text in
      if txt = [] then (None, [], None, None)
      else
        let id_int = group_int txt (search ab_id_re txt) 1;
            m_frac = search frac_re txt;
            curr = group_int txt m_frac 1;
            total = group_int txt m_frac 2;
            name1 = strip (re_sub ab_token_name_re [] txt);
            name2 = strip (re_sub frac_end_re [] name1);
            name3 = strip (re_sub num_end_re [] name2)
        in (id_int, name3, curr, total))"

definition is_dot :: "char \<Rightarrow> bool" where
  "is_dot c = (c \<noteq> CHR 0x0A)"

definition is_linebreak :: "char \<Rightarrow> bool" where
  "is_linebreak c = (let n = (of_char c :: nat) in (10 \<le> n \<and> n \<le> 13) \<or> (28 \<le> n \<and> n \<le> 30) \<or> n = 133)"

function splitlines_aux :: "string \<Rightarrow> string \<Rightarrow> string list" where
  "splitlines_aux cur [] = (if cur = [] then [] else [rev cur])"
| "splitlines_aux cur (c # cs) =
     (if is_linebreak c then
        rev cur # splitlines_aux []
          (if c = CHR 0x0D then (case cs of [] \<Rightarrow> cs | d # ds \<Rightarrow> if d = CHR 0x0A then ds else cs) else cs)
      else splitlines_aux (c # cur) cs)"
  by pat_completeness auto
termination
  by (relation "measure (\<lambda>(cur, s). length s)") (auto split: list.splits)

definition splitlines :: "string \<Rightarrow> string list" where
  "splitlines s = splitlines_aux [] s"

fun contains_at :: "string \<Rightarrow> string \<Rightarrow> bool" where
  "contains_at needle [] = (needle = [])"
| "contains_at needle (c # cs) = (take (length needle) (c # cs) = needle \<or> contains_at needle cs)"

fun first_index :: "('a \<Rightarrow> bool) \<Rightarrow> 'a list \<Rightarrow> nat option" where
  "first_index P [] = None"
| "first_index P (x # xs) = (if P x then Some 0 else map_option Suc (first_index P xs))"

fun first_some :: "('a \<Rightarrow> 'b option) \<Rightarrow> 'a list \<Rightarrow> 'b option" where
  "first_some f [] = None"
| "first_some f (x # xs) = (case f x of Some y \<Rightarrow> Some y | None \<Rightarrow> first_some f xs)"

definition group_or_empty :: "string \<Rightarrow> (nat \<times> nat \<times> caps) \<Rightarrow> nat \<Rightarrow> string" where
  "group_or_empty s m n = (case group s m n of None \<Rightarrow> [] | Some g \<Rightarrow> g)"

definition header_ab_on_page :: "string \<Rightarrow> int option" where
  "header_ab_on_page text =
     (if text = [] then None
      else
        let head = take 400 (join [CHR 0x0A] (take 12 (splitlines text)));
            head_clean = clean_header_text head
        in case search ab_id_re head_clean of
             Some m \<Rightarrow> int_of_str (group_or_empty head_clean m 1)
           | None \<Rightarrow>
               (let whole_clean = clean_header_text text
                in case search ab_id_re whole_clean of
                     Some m2 \<Rightarrow> int_of_str (group_or_empty whole_clean m2 1)
                   | None \<Rightarrow> None))"

fun dlp_scan :: "string list \<Rightarrow> int \<Rightarrow> int option \<Rightarrow> int list \<Rightarrow> int" where
  "dlp_scan pages start_page current_id [] = min start_page (int (length pages))"
| "dlp_scan pages start_page current_id (offset # rest) =
     (let total_pages_doc = int (length pages);
          page_no = start_page + offset
      in if page_no < 1 \<or> page_no > total_pages_doc then min start_page total_pages_doc
         else
           let raw_pt = pages ! nat (page_no - 1);
               pt = clean_header_text raw_pt;
               hdr = header_ab_on_page raw_pt
           in if hdr \<noteq> None \<and> current_id \<noteq> None \<and> hdr \<noteq> current_id
              then min (max start_page (page_no - 1)) total_pages_doc
              else
                case search frac_re pt of
                  None \<Rightarrow> dlp_scan pages start_page current_id rest
                | Some m \<Rightarrow>
                    (case (int_of_str (group_or_empty pt m 1), int_of_str (group_or_empty pt m 2)) of
                       (Some curr_v, Some second_v) \<Rightarrow>
                         if second_v \<ge> curr_v \<and> second_v \<le> total_pages_doc \<and> second_v - start_page < 500
                         then min second_v total_pages_doc
                         else if second_v > 0 \<and> second_v \<le> 400
                         then min (max start_page (start_page + (second_v - curr_v))) total_pages_doc
                         else dlp_scan pages start_page current_id rest
                     | _ \<Rightarrow> dlp_scan pages start_page current_id rest))"

definition determine_last_page :: "string list \<Rightarrow> int \<Rightarrow> int option \<Rightarrow> int option \<Rightarrow> int" where
  "determine_last_page pages start_page current_id max_scan =
     (if pages = [] then start_page
      else
        let total_pages_doc = int (length pages);
            max_scan' = (case max_scan of Some ms \<Rightarrow> ms | None \<Rightarrow> total_pages_doc - start_page + 1)
        in dlp_scan pages start_page current_id [0..max_scan' - 1])"

definition existing_pages_for_id :: "pdf_document \<Rightarrow> int \<Rightarrow> int set" where
  "existing_pages_for_id d id_int =
     (case ws_get (working_sheets d) (IntKey id_int) of
        None \<Rightarrow> {}
      | Some names \<Rightarrow> set (concat (map snd names)))"

definition word4_re :: re where
  "word4_re = seqs [Cls is_word, Cls is_word, Cls is_word, Cls is_word, Star True (Cls is_word)]"

definition findall :: "re \<Rightarrow> string \<Rightarrow> string list" where
  "findall r s = map (\<lambda>(a, b, c). slice s a b) (finditer r s)"

definition find_page_for_entry :: "string list \<Rightarrow> int option \<Rightarrow> string option \<Rightarrow> int option" where
  "find_page_for_entry pages id_int name =
     (if pages = [] then None
      else
        case (case id_int of
                None \<Rightarrow> None
              | Some i \<Rightarrow> if i = 0 then None
                          else first_index (\<lambda>p. fst (parse_ab_header p) = Some i) pages) of
          Some i \<Rightarrow> Some (int i + 1)
        | None \<Rightarrow>
            (case name of
               None \<Rightarrow> None
             | Some nm \<Rightarrow>
                 if nm = [] then None
                 else
                   let name_norm = lower (re_sub (plus True (Cls is_space)) '' '' (strip nm))
                   in if name_norm = [] then None
                      else
                        case first_index (\<lambda>p. contains_at name_norm (lower (clean_header_text p))) pages of
                          Some i \<Rightarrow> Some (int i + 1)
                        | None \<Rightarrow>
                            first_some
                              (\<lambda>tok. map_option (\<lambda>i. int i + 1)
                                 (first_index (\<lambda>p. contains_at tok (lower (clean_header_text p))) pages))
                              (findall word4_re name_norm)))"

definition heading_start_text :: string where
  "heading_start_text = [CHR 0xDC] @ ''bersicht Arbeitsbl'' @ [CHR 0xE4] @ ''tter''"

definition heading_end_text :: string where
  "heading_end_text = [CHR 0xDC] @ ''bersicht Informationsbl'' @ [CHR 0xE4] @ ''tter''"

definition heading_re :: "string \<Rightarrow> re" where
  "heading_re h = seqs [Grp 1 (Alt Bol (Cls (\<lambda>c. c = CHR 0x0A))), Star True (Cls is_space), lit_ci h,
                       Star True (Cls is_space), Grp 2 (Alt (Cls (\<lambda>c. c = CHR 0x0A)) Eol)]"

definition toc_bounds :: "string list \<Rightarrow> (nat \<times> nat) option" where
  "toc_bounds pages =
     (let start_idx =
            (case first_index (\<lambda>txt. txt \<noteq> [] \<and> search (heading_re heading_start_text) txt \<noteq> None) pages of
               Some i \<Rightarrow> Some i
             | None \<Rightarrow>
                 map_option (\<lambda>j. length pages - 1 - j)
                   (first_index (\<lambda>txt. txt \<noteq> [] \<and> contains_at heading_start_text txt) (rev pages)))
      in case start_idx of
           None \<Rightarrow> None
         | Some si \<Rightarrow>
             (let tail = drop si pages;
                  end_idx =
                    (case first_index (\<lambda>pt. search (heading_re heading_end_text) pt \<noteq> None) tail of
                       Some j \<Rightarrow> si + j
                     | None \<Rightarrow>
                         (case first_index (\<lambda>pt. pt \<noteq> [] \<and> contains_at heading_end_text pt) tail of
                            Some j \<Rightarrow> si + j
                          | None \<Rightarrow> min (si + 8) (length pages - 1)))
              in Some (si, end_idx)))"

definition toc_text_of :: "string list \<Rightarrow> string" where
  "toc_text_of pages =
     (case toc_bounds pages of
        None \<Rightarrow> []
      | Some (si, ei) \<Rightarrow>
          (let raw_toc = join '' '' (take (ei + 1 - si) (drop si pages));
               t1 = map (\<lambda>c. if c = CHR 0xA0 then CHR '' '' else c) raw_toc
           in strip (re_sub (plus True (Cls is_space)) '' '' t1)))"

definition sep_re :: re where
  \<comment> \<open>\<open>(?:\s*[/\-]\s*)?\<close>\<close>
  "sep_re = opt (seqs [Star True (Cls is_space), Cls (\<lambda>c. c = CHR ''/'' \<or> c = CHR ''-''), Star True (Cls is_space)])"

definition ab_token_re :: re where
  "ab_token_re = seqs [WordB, lit_ci ''AB'', Star True (Cls is_space), Grp 1 (rep_1_4 (Cls is_digit)), WordB, sep_re]"

definition trail_re :: re where
  \<comment> \<open>\<open>(?P<n>.*?)[\s\-:]*(?P<p>\d{1,4})\s*$\<close>, the groups numbered 1 and 2\<close>
  "trail_re = seqs [Grp 1 (Star False (Cls is_dot)),
                    Star True (Cls (\<lambda>c. is_space c \<or> c = CHR ''-'' \<or> c = CHR '':'')),
                    Grp 2 (rep_1_4 (Cls is_digit)), Star True (Cls is_space), Eol]"

definition number_re :: re where
  "number_re = seqs [WordB, Grp 1 (rep_1_4 (Cls is_digit)), WordB]"

definition global_re :: re where
  "global_re = seqs [WordB, lit_ci ''AB'', Star True (Cls is_space), Grp 1 (rep_1_4 (Cls is_digit)), WordB, sep_re,
                     Grp 2 (plus False (Cls is_dot)), plus True (Cls is_space),
                     Grp 3 (rep_1_4 (Cls is_digit)), WordB]"

definition py_isdigit :: "string \<Rightarrow> bool" where
  \<comment> \<open>\<open>str.isdigit()\<close> on code points below 256\<close>
  "py_isdigit s = (s \<noteq> [] \<and> (\<forall>c \<in> set s. is_digit c \<or> c = CHR 0xB2 \<or> c = CHR 0xB3 \<or> c = CHR 0xB9))"

definition toc_strip_chars :: string where
  "toc_strip_chars = [CHR '' '', CHR 0x09, CHR 0x5C, CHR ''-'', CHR '':'', CHR '';'', CHR '','', CHR ''.'']"

definition scan_strip_chars :: string where
  "scan_strip_chars = [CHR '' '', CHR 0x09, CHR 0x5C, CHR ''-'', CHR '':'', CHR '';'', CHR '','']"

definition toc_entry :: "string \<Rightarrow> (nat \<times> nat \<times> caps) \<Rightarrow> nat \<Rightarrow> string \<times> string \<times> int option" where
  "toc_entry toc_text m end_pos =
     (let id_str = group_or_empty toc_text m 1;
          start = fst (snd m);
          raw_name0 = strip (slice toc_text start end_pos);
          m_trail = search trail_re raw_name0;
          page_num1 =
            (case m_trail of
               None \<Rightarrow> None
             | Some mt \<Rightarrow>
                 (let p_candidate = strip (group_or_empty raw_name0 mt 2)
                  in if py_isdigit p_candidate then int_of_str p_candidate else None));
          raw_name =
            (case m_trail of
               None \<Rightarrow> raw_name0
             | Some mt \<Rightarrow>
                 (let name_candidate = strip (group_or_empty raw_name0 mt 1)
                  in if name_candidate \<noteq> [] then name_candidate else raw_name0));
          page_num =
            (case page_num1 of
               Some p \<Rightarrow> Some p
             | None \<Rightarrow>
                 (let lookahead = slice toc_text start (start + 250)
                  in case search number_re lookahead of
                       None \<Rightarrow> None
                     | Some m2 \<Rightarrow> int_of_str (group_or_empty lookahead m2 1)));
          name = strip_chars toc_strip_chars raw_name
      in (id_str, name, page_num))"

fun toc_entries :: "string \<Rightarrow> (nat \<times> nat \<times> caps) list \<Rightarrow> (string \<times> string \<times> int option) list" where
  "toc_entries toc_text [] = []"
| "toc_entries toc_text (m # ms) =
     toc_entry toc_text m (case ms of [] \<Rightarrow> length toc_text | m' # _ \<Rightarrow> fst m') # toc_entries toc_text ms"

definition parse_toc :: "string \<Rightarrow> (string \<times> string \<times> int option) list" where
  "parse_toc toc_text = (if toc_text = [] then [] else toc_entries toc_text (finditer ab_token_re toc_text))"

definition truthy_int :: "int option \<Rightarrow> bool" where
  \<comment> \<open>the truth value of an optional integer: neither \<open>None\<close> nor 0\<close>
  "truthy_int v = (case v of None \<Rightarrow> False | Some i \<Rightarrow> i \<noteq> 0)"

definition nonempty_opt :: "string \<Rightarrow> string option" where
  \<comment> \<open>\<open>name or None\<close>\<close>
  "nonempty_opt s = (if s = [] then None else Some s)"

definition nonzero_opt :: "int \<Rightarrow> int option" where
  \<comment> \<open>\<open>id_int if id_int else None\<close>\<close>
  "nonzero_opt i = (if i = 0 then None else Some i)"

definition fix_entry :: "string list \<Rightarrow> string \<times> string \<times> int option \<Rightarrow> string \<times> string \<times> int option" where
  "fix_entry pages e =
     (case e of (id_str, name, page_num) \<Rightarrow>
        (case page_num of
           Some p \<Rightarrow> (id_str, name, Some p)
         | None \<Rightarrow>
             (let id_int = key_int (coerce_id_to_int (PStr id_str));
                  found = find_page_for_entry pages (nonzero_opt id_int) (nonempty_opt name)
              in if truthy_int found then (id_str, name, found) else (id_str, name, None))))"

definition pages_range :: "int \<Rightarrow> int \<Rightarrow> pyval" where
  \<comment> \<open>\<open>list(range(start_page, last_page + 1)) if start_page <= last_page else []\<close>\<close>
  "pages_range start_page last_page =
     PList (map PInt (if start_page \<le> last_page then [start_page..last_page] else []))"

definition add_or_keep :: "pyval \<Rightarrow> string \<Rightarrow> pyval \<Rightarrow> pdf_document \<Rightarrow> pdf_document" where
  \<comment> \<open>\<open>try: add_working_sheet(...) except Exception: log\<close>\<close>
  "add_or_keep idv name pages d = (case add_working_sheet idv name pages d of Inl e \<Rightarrow> d | Inr d' \<Rightarrow> d')"

definition add_toc_entry :: "string list \<Rightarrow> pdf_document \<Rightarrow> string \<times> string \<times> int option \<Rightarrow> pdf_document" where
  "add_toc_entry pages d e =
     (case e of (id_str, name, start_page) \<Rightarrow>
        (let current_id = key_int (coerce_id_to_int (PStr id_str));
             pages_list =
               (case start_page of
                  None \<Rightarrow> PList []
                | Some sp \<Rightarrow>
                    if sp = 0 then PList []
                    else pages_range sp (determine_last_page pages sp (Some current_id) None))
         in add_or_keep (PStr (if current_id \<noteq> 0 then str_int current_id else id_str))
              (if name \<noteq> [] then name else ''AB '' @ id_str) pages_list d))"

definition global_step :: "string list \<Rightarrow> string \<Rightarrow> pdf_document \<times> int list \<Rightarrow> (nat \<times> nat \<times> caps)
     \<Rightarrow> pdf_document \<times> int list" where
  "global_step pages txt st m =
     (case st of (d, existing_ids) \<Rightarrow>
        (let id_str = group_or_empty txt m 1;
             id_int = key_int (coerce_id_to_int (PStr id_str))
         in if id_int \<in> set existing_ids then (d, existing_ids)
            else
              let raw_name = strip (group_or_empty txt m 2);
                  start_page = int_of_str (group_or_empty txt m 3);
                  name = strip_chars scan_strip_chars raw_name;
                  pages_list =
                    (if truthy_int start_page then
                       (case start_page of
                          Some sp \<Rightarrow> pages_range sp (determine_last_page pages sp (Some id_int) None)
                        | None \<Rightarrow> PList [])
                     else
                       (case find_page_for_entry pages (nonzero_opt id_int) (nonempty_opt name) of
                          Some found \<Rightarrow> if found \<noteq> 0 then PList [PInt found] else PList []
                        | None \<Rightarrow> PList []))
              in case add_working_sheet (PStr (str_int id_int)) name pages_list d of
                   Inl e \<Rightarrow> (d, existing_ids)
                 | Inr d' \<Rightarrow> (d', key_int (coerce_id_to_int (PStr id_str)) # existing_ids)))"

definition global_scan_page :: "string list \<Rightarrow> pdf_document \<times> int list \<Rightarrow> string \<Rightarrow> pdf_document \<times> int list" where
  "global_scan_page pages st txt =
     (if txt = [] then st else foldl (global_step pages txt) st (finditer global_re txt))"

definition global_scan :: "string list \<Rightarrow> pdf_document \<Rightarrow> pdf_document" where
  \<comment> \<open>\<open>existing_ids\<close>, a set of keys, is kept as the list of their integer values: an integer
      is in a set of keys when it is equal to one of them\<close>
  "global_scan pages d =
     fst (foldl (global_scan_page pages) (d, map key_int (dict_keys (working_sheets d))) pages)"

definition header_map_of :: "string list \<Rightarrow> int list" where
  "header_map_of pages =
     (let total_pages = int (length pages);
          header_map = map (\<lambda>p. case header_ab_on_page p of None \<Rightarrow> 0 | Some h \<Rightarrow> h) pages
      in if int (length (filter (\<lambda>v. v \<noteq> 0) header_map)) < max 2 (total_pages div 30)
         then map (\<lambda>(h, p). if h = 0
                              then (case fst (parse_ab_header p) of
                                      None \<Rightarrow> h
                                    | Some id_int \<Rightarrow> if id_int \<noteq> 0 then id_int else h)
                              else h)
                (zip header_map pages)
         else header_map)"

definition contiguous_end :: "string list \<Rightarrow> int list \<Rightarrow> nat \<Rightarrow> int" where
  \<comment> \<open>\<open>j = i + 1; while j < total_pages and header_map[j] == cur: j += 1\<close>; the result is \<open>j\<close>\<close>
  "contiguous_end pages header_map i =
     int (Suc i + length (takeWhile (\<lambda>h. h = header_map ! i)
                            (drop (Suc i) (take (length pages) header_map))))"

definition block_end :: "string list \<Rightarrow> int list \<Rightarrow> nat \<Rightarrow> int" where
  \<comment> \<open>the end page (1-based, inclusive) of the block that starts at index \<open>i\<close>\<close>
  "block_end pages header_map i =
     (let total_pages = int (length pages);
          start = int i + 1
      in case parse_ab_header (pages ! i) of
           (hid, nm, curr_v, total_cnt) \<Rightarrow>
             (case (curr_v, total_cnt) of
                (Some c, Some t) \<Rightarrow>
                  if c \<noteq> 0 \<and> t \<noteq> 0
                  then max start (min total_pages (start + (t - c)))
                  else contiguous_end pages header_map i
              | _ \<Rightarrow> contiguous_end pages header_map i))"

function build_blocks :: "string list \<Rightarrow> int list \<Rightarrow> nat \<Rightarrow> (int \<times> int \<times> int) list" where
  "build_blocks pages header_map i =
     (if i < length pages then
        (let cur = header_map ! i
         in if cur > 0
            then (let end_page = block_end pages header_map i
                  in (cur, int i + 1, end_page) # build_blocks pages header_map (nat end_page))
            else build_blocks pages header_map (Suc i))
      else [])"
  by pat_completeness auto
termination
  by (relation "measure (\<lambda>(pages, header_map, i). length pages - i)")
     (auto simp: block_end_def contiguous_end_def Let_def split: prod.splits option.splits)

definition toc_name_by_id :: "(string \<times> string \<times> int option) list \<Rightarrow> (int \<times> string) list" where
  "toc_name_by_id entries_found =
     foldl (\<lambda>acc (id_str, name, p). dict_set acc (key_int (coerce_id_to_int (PStr id_str))) name)
       [] entries_found"

definition block_name_re :: "int \<Rightarrow> re" where
  \<comment> \<open>\<open>\bAB\s*{id_int}\s*[/\-]\s*(.+?)(?:\n|$)\<close>\<close>
  "block_name_re id_int =
     seqs [WordB, lit_ci ''AB'', Star True (Cls is_space), lit_ci (str_int id_int), Star True (Cls is_space),
           Cls (\<lambda>c. c = CHR ''/'' \<or> c = CHR ''-''), Star True (Cls is_space),
           Grp 1 (plus False (Cls is_dot)), Alt (Cls (\<lambda>c. c = CHR 0x0A)) Eol]"

definition block_name_from_pages :: "string list \<Rightarrow> int \<Rightarrow> int \<Rightarrow> int \<Rightarrow> string" where
  \<comment> \<open>the name found in the page window around the block, stripped; empty when there is none\<close>
  "block_name_from_pages pages id_int start_page end_page =
     (let total_pages = int (length pages);
          window = [max 1 (start_page - 1)..min total_pages (end_page + 2) - 1]
      in case first_some (\<lambda>pg. let cleaned = clean_header_text (pages ! nat (pg - 1))
                                in case search (block_name_re id_int) cleaned of
                                     None \<Rightarrow> None
                                   | Some m \<Rightarrow> Some (strip (group_or_empty cleaned m 1)))
                window of
           None \<Rightarrow> []
         | Some found_name \<Rightarrow> if found_name \<noteq> [] then strip_chars toc_strip_chars found_name else [])"

definition header_block_step :: "string list \<Rightarrow> (int \<times> string) list \<Rightarrow> pdf_document \<Rightarrow> int \<times> int \<times> int
     \<Rightarrow> pdf_document" where
  "header_block_step pages toc_names d b =
     (case b of (id_int, start_page, end_page) \<Rightarrow>
        if id_int \<le> 0 then d
        else if end_page < start_page then d
        else
          let block_pages = [start_page..end_page];
              already = existing_pages_for_id d id_int
          in if set block_pages \<subseteq> already \<and> already \<noteq> {} then d
             else
               let name1 = (case dict_get toc_names id_int of None \<Rightarrow> [] | Some n \<Rightarrow> n);
                   name2 = (if name1 \<noteq> [] then name1
                            else case ws_get (working_sheets d) (IntKey id_int) of
                                   None \<Rightarrow> []
                                 | Some names_map \<Rightarrow> (case names_map of [] \<Rightarrow> [] | (n, ps) # rest \<Rightarrow> n));
                   name3 = (if name2 \<noteq> [] then name2
                            else block_name_from_pages pages id_int start_page end_page);
                   name = (if name3 \<noteq> [] then name3 else ''AB '' @ str_int id_int)
               in add_or_keep (PStr (str_int id_int)) name (PList (map PInt block_pages)) d)"

definition identify_working_sheets :: "string list \<Rightarrow> pdf_document \<Rightarrow> pdf_document" where
  "identify_working_sheets pages pdf_object =
     (if pages = [] then pdf_object
      else
        let toc_text = toc_text_of pages;
            entries_found = map (fix_entry pages) (parse_toc toc_text);
            d1 = foldl (add_toc_entry pages) pdf_object entries_found;
            d2 = global_scan pages d1;
            header_map = header_map_of pages;
            blocks = build_blocks pages header_map 0
        in foldl (header_block_step pages (toc_name_by_id entries_found)) d2 blocks)"

text \<open>Invariant of the global scan loop, for a fixed list \<open>K\<close> of ids and a fixed
  lookup \<open>F\<close>: every id of \<open>K\<close> is in the list of known ids, and its bucket is the one
  that \<open>F\<close> gives.\<close>

definition scan_inv :: "id_key list \<Rightarrow> (id_key \<Rightarrow> (string \<times> int list) list option)
    \<Rightarrow> pdf_document \<times> int list \<Rightarrow> bool" where
  "scan_inv K F st = (key_int ` set K \<subseteq> set (snd st) \<and>
     (\<forall>k \<in> set K. ws_get (working_sheets (fst st)) k = F k))"



section \<open>Properties of the document model\<close>

lemma dict_get_set: "dict_get (dict_set d k v) k' = (if k' = k then Some v else dict_get d k')"
  by (induction d) auto

lemma dict_set_subset: "set (dict_set d k v) \<subseteq> insert (k, v) (set d)"
  by (induction d) (auto split: if_splits)

lemma dict_get_in_set: "dict_get d k = Some v \<Longrightarrow> (k, v) \<in> set d"
  by (induction d) (auto split: if_splits)

lemma dict_keys_set: "fst ` set (dict_set d k v) = insert k (fst ` set d)"
  by (induction d k v rule: dict_set.induct) (simp_all add: insert_commute)

lemma distinct_dict_set: "distinct (map fst d) \<Longrightarrow> distinct (map fst (dict_set d k v))"
  by (induction d) (auto simp: dict_keys_set)

lemma ws_get_set:
  "ws_get (ws_set d k v) k' = (if key_int k' = key_int k then Some v else ws_get d k')"
  by (induction d) auto

lemma ws_set_values: "(k', b) \<in> set (ws_set d k v) \<Longrightarrow> b = v \<or> (k', b) \<in> set d"
  by (induction d) (auto split: if_splits)

lemma ws_get_in_set: "ws_get d k = Some v \<Longrightarrow> \<exists>k'. (k', v) \<in> set d"
  by (induction d) (auto split: if_splits)

lemma ws_set_key: "(k', b) \<in> set (ws_set d k v) \<Longrightarrow> k' = k \<or> k' \<in> fst ` set d"
  by (induction d) (force split: if_splits)+

lemma ws_set_keys: "fst ` set (ws_set d k v) \<subseteq> insert k (fst ` set d)"
  using ws_set_key by fastforce



lemma set_fromkeys [simp]: "set (fromkeys xs) = set xs"
  by (simp add: fromkeys_def)

lemma distinct_fromkeys [simp]: "distinct (fromkeys xs)"
  by (simp add: fromkeys_def)


lemma strict_sorted_sort_fromkeys: "sorted_wrt (<) (sort (fromkeys (xs :: int list)))"
  by (simp add: strict_sorted_iff)

lemma set_merge_pages: "set (merge_pages a b) = set a \<union> set b"
  by (simp add: merge_pages_def)

lemma merge_pages_absorb:
  assumes "sorted_wrt (<) a" "set b \<subseteq> set a"
  shows "merge_pages a b = a"
proof -
  have "sorted (merge_pages a b)" "distinct (merge_pages a b)" "set (merge_pages a b) = set a"
    using assms by (auto simp: merge_pages_def)
  moreover have "sorted a" "distinct a" using assms(1) by (auto simp: strict_sorted_iff)
  ultimately show ?thesis by (metis sorted_distinct_set_unique)
qed

lemma normalize_pages_ok: "normalize_pages pages = Inr ps \<Longrightarrow> pages_ok ps"
  by (auto simp: normalize_pages_def pages_ok_def strict_sorted_iff split: sum.splits)

lemma merge_pages_ok: "pages_ok a \<Longrightarrow> pages_ok b \<Longrightarrow> pages_ok (merge_pages a b)"
  by (auto simp: pages_ok_def merge_pages_def strict_sorted_iff)

lemma set_map_filter: "set (List.map_filter f xs) = {y. \<exists>x \<in> set xs. f x = Some y}"
  by (induction xs) (auto simp: List.map_filter_def)

lemma normalize_pages_set:
  assumes "py_iter (or_empty pages) = Inr items"
  shows "\<exists>new_pages. normalize_pages pages = Inr new_pages \<and>
           new_pages = sort (fromkeys (filter (\<lambda>p. 0 < p) (List.map_filter py_int items))) \<and>
           set new_pages = {p. 0 < p \<and> (\<exists>x \<in> set items. py_int x = Some p)}"
  using assms by (auto simp: normalize_pages_def set_map_filter)

text \<open>
  Claim C1 as stated fails. A pair whose name is the empty string can be present in a model
  (\<open>from_dict\<close> stores the name it is given), and \<open>add_working_sheet\<close> returns at once for
  an empty name: the page 2 is not added to the stored list. For a page argument that
  cannot be iterated the call raises TypeError.
\<close>

theorem add_working_sheet_empty_name_ignored:
  "from_dict [(PStr ''working_sheets'', PDict [(PStr ''1'', PDict [(PStr [], PList [PInt 1])])])]
     = Inr \<lparr>pdf_filename = [], pdf_path = [], working_sheets = [(IntKey 1, [([], [1])])]\<rparr>
   \<and> add_working_sheet (PInt 1) [] (PList [PInt 2])
        \<lparr>pdf_filename = [], pdf_path = [], working_sheets = [(IntKey 1, [([], [1])])]\<rparr>
     = Inr \<lparr>pdf_filename = [], pdf_path = [], working_sheets = [(IntKey 1, [([], [1])])]\<rparr>
   \<and> add_working_sheet (PInt 1) ''a'' (PInt 5)
        \<lparr>pdf_filename = [], pdf_path = [], working_sheets = [(IntKey 1, [(''a'', [1])])]\<rparr>
     = Inl TypeError"
  by (simp add: from_dict_def dict_get_default_def or_empty_def normalize_pages_def
      new_document_def add_working_sheet_def coerce_id_to_int_def py_str_def strip_def
      is_space_def int_of_str_def is_int_space_def parse_nat_def is_digit_def digit_val_def
      List.map_filter_def fromkeys_def)

text \<open>
  Claim C1, amended. For a pair \<open>(id, name)\<close> with a non-empty name that is present in the
  model, and a page argument that can be iterated (or is empty), \<open>add_working_sheet\<close>
  replaces the stored list by the merge of the stored pages and the normalized new pages:
  the new list is strictly ascending (sorted and free of duplicates), its elements are
  exactly the stored pages together with the positive integers that \<open>int()\<close> gives for the
  elements of the page argument, so no stored page is lost and every new page is added; and
  when the stored list is strictly ascending and every new page is already stored, the
  stored list is unchanged.
\<close>

theorem add_working_sheet_merges:
  assumes "name \<noteq> []"
    and "py_iter (or_empty pages) = Inr items"
    and "ws_get (working_sheets d) (coerce_id_to_int idv) = Some bucket"
    and "dict_get bucket name = Some existing"
  shows "\<exists>d'. add_working_sheet idv name pages d = Inr d' \<and>
           get_pages idv name d' =
             sort (fromkeys (existing @ sort (fromkeys (filter (\<lambda>p. 0 < p) (List.map_filter py_int items))))) \<and>
           sorted_wrt (<) (get_pages idv name d') \<and>
           set (get_pages idv name d') =
             set existing \<union> {p. 0 < p \<and> (\<exists>x \<in> set items. py_int x = Some p)} \<and>
           (sorted_wrt (<) existing \<and>
            {p. 0 < p \<and> (\<exists>x \<in> set items. py_int x = Some p)} \<subseteq> set existing
              \<longrightarrow> get_pages idv name d' = existing)"
proof -
  from normalize_pages_set[OF assms(2)] obtain new_pages where
    np: "normalize_pages pages = Inr new_pages"
    and npe: "new_pages = sort (fromkeys (filter (\<lambda>p. 0 < p) (List.map_filter py_int items)))"
    and nps: "set new_pages = {p. 0 < p \<and> (\<exists>x \<in> set items. py_int x = Some p)}"
    by blast
  let ?d' = "d\<lparr>working_sheets := ws_set (working_sheets d) (coerce_id_to_int idv)
                 (dict_set bucket name (merge_pages existing new_pages))\<rparr>"
  have a: "add_working_sheet idv name pages d = Inr ?d'"
    using assms(1,3,4) np by (simp add: add_working_sheet_def)
  have g: "get_pages idv name ?d' = merge_pages existing new_pages"
    by (simp add: get_pages_def ws_get_set dict_get_set)
  have e: "merge_pages existing new_pages =
      sort (fromkeys (existing @ sort (fromkeys (filter (\<lambda>p. 0 < p) (List.map_filter py_int items)))))"
    by (simp only: merge_pages_def npe)
  have s: "sorted_wrt (<) (merge_pages existing new_pages)"
    by (simp add: merge_pages_def strict_sorted_sort_fromkeys)
  have u: "set (merge_pages existing new_pages) =
      set existing \<union> {p. 0 < p \<and> (\<exists>x \<in> set items. py_int x = Some p)}"
    by (simp only: set_merge_pages nps)
  have i: "sorted_wrt (<) existing \<and>
      {p. 0 < p \<and> (\<exists>x \<in> set items. py_int x = Some p)} \<subseteq> set existing
        \<longrightarrow> merge_pages existing new_pages = existing"
    using merge_pages_absorb[of existing new_pages] nps by blast
  show ?thesis
    apply (rule exI[of _ ?d'])
    apply (simp only: a g)
    using e s u i by blast
qed

theorem add_working_sheet_merges_witness:
  "\<exists>d'. add_working_sheet (PStr ''3'') ''a'' (PList [PInt 5, PStr ''1'', PInt 2, PInt 0, PStr ''x''])
           \<lparr>pdf_filename = ''f'', pdf_path = ''p'', working_sheets = [(IntKey 3, [(''a'', [1, 2])])]\<rparr> = Inr d'
       \<and> get_pages (PStr ''3'') ''a'' d' = [1, 2, 5]"
proof -
  let ?d = "\<lparr>pdf_filename = ''f'', pdf_path = ''p'', working_sheets = [(IntKey 3, [(''a'', [1, 2])])]\<rparr>"
  let ?items = "[PInt 5, PStr ''1'', PInt 2, PInt 0, PStr ''x'']"
  have c: "coerce_id_to_int (PStr ''3'') = IntKey 3"
    by (simp add: coerce_id_to_int_def py_str_def strip_def is_space_def int_of_str_def
        is_int_space_def parse_nat_def is_digit_def digit_val_def)
  have h1: "''a'' \<noteq> []" by simp
  have h2: "py_iter (or_empty (PList ?items)) = Inr ?items" by (simp add: or_empty_def)
  have h3: "ws_get (working_sheets ?d) (coerce_id_to_int (PStr ''3'')) = Some [(''a'', [1, 2])]"
    by (simp add: c)
  have h4: "dict_get [(''a'', [1, 2 :: int])] ''a'' = Some [1, 2]" by simp
  have v: "sort (fromkeys ([1, 2] @ sort (fromkeys (filter (\<lambda>p. 0 < p) (List.map_filter py_int ?items)))))
      = [1, 2, 5 :: int]"
    by (simp add: List.map_filter_def fromkeys_def int_of_str_def is_int_space_def parse_nat_def
        is_digit_def digit_val_def)
  from add_working_sheet_merges [OF h1 h2 h3 h4] obtain d' where
    "add_working_sheet (PStr ''3'') ''a'' (PList ?items) ?d = Inr d'"
    "get_pages (PStr ''3'') ''a'' d' =
       sort (fromkeys ([1, 2] @ sort (fromkeys (filter (\<lambda>p. 0 < p) (List.map_filter py_int ?items)))))"
    by blast
  then show ?thesis by (simp only: v) blast
qed

lemma add_working_sheet_lists_ok:
  assumes "lists_ok d" "add_working_sheet idv name pages d = Inr d'"
  shows "lists_ok d'"
proof (cases "name = []")
  case True
  with assms show ?thesis by (simp add: add_working_sheet_def)
next
  case False
  from assms(2) False obtain new_pages where np: "normalize_pages pages = Inr new_pages"
    by (auto simp: add_working_sheet_def Let_def split: sum.splits)
  define k where "k = coerce_id_to_int idv"
  define bucket where "bucket = (case ws_get (working_sheets d) k of None \<Rightarrow> [] | Some b \<Rightarrow> b)"
  define X where "X = (case dict_get bucket name of Some existing \<Rightarrow> merge_pages existing new_pages | None \<Rightarrow> new_pages)"
  have d': "working_sheets d' = ws_set (working_sheets d) k (dict_set bucket name X)"
    using assms(2) False np
    by (auto simp: add_working_sheet_def Let_def k_def bucket_def X_def split: option.splits)
  have b_ok: "\<forall>(n, ps) \<in> set bucket. pages_ok ps"
  proof (cases "ws_get (working_sheets d) k")
    case None
    then show ?thesis by (simp add: bucket_def)
  next
    case (Some b)
    then obtain k' where "(k', b) \<in> set (working_sheets d)" using ws_get_in_set by fastforce
    with assms(1) Some show ?thesis by (auto simp: bucket_def lists_ok_def)
  qed
  have X_ok: "pages_ok X"
  proof (cases "dict_get bucket name")
    case None
    then show ?thesis using normalize_pages_ok[OF np] by (simp add: X_def)
  next
    case (Some existing)
    then have "(name, existing) \<in> set bucket" by (rule dict_get_in_set)
    with b_ok have "pages_ok existing" by auto
    with Some show ?thesis using normalize_pages_ok[OF np] by (simp add: X_def merge_pages_ok)
  qed
  have b'_ok: "\<forall>(n, ps) \<in> set (dict_set bucket name X). pages_ok ps"
    using b_ok X_ok dict_set_subset[of bucket name X] by auto
  show ?thesis
    unfolding lists_ok_def d'
  proof (intro ballI, clarify)
    fix k' names n ps
    assume in1: "(k', names) \<in> set (ws_set (working_sheets d) k (dict_set bucket name X))"
      and in2: "(n, ps) \<in> set names"
    from ws_set_values[OF in1]
    have "names = dict_set bucket name X \<or> (k', names) \<in> set (working_sheets d)" .
    then show "pages_ok ps"
    proof
      assume "names = dict_set bucket name X"
      with b'_ok in2 show ?thesis by auto
    next
      assume "(k', names) \<in> set (working_sheets d)"
      with assms(1) in2 show ?thesis by (auto simp: lists_ok_def)
    qed
  qed
qed

lemma add_working_sheet_cases:
  assumes "add_working_sheet idv name pages d = Inr d'"
  shows "d' = d \<or> (\<exists>B. d' = d\<lparr>working_sheets := ws_set (working_sheets d) (coerce_id_to_int idv) B\<rparr>)"
  using assms
  by (auto simp: add_working_sheet_def Let_def split: if_splits sum.splits)

lemma add_working_sheet_keys:
  assumes "add_working_sheet idv name pages d = Inr d'"
  shows "fst ` set (working_sheets d') \<subseteq> insert (coerce_id_to_int idv) (fst ` set (working_sheets d))"
  using add_working_sheet_cases[OF assms] ws_set_keys
  by (elim disjE exE) (simp_all add: subset_insertI)

lemma add_all_lists_ok: "lists_ok d \<Longrightarrow> lists_ok (add_all calls d)"
proof (induction calls arbitrary: d)
  case Nil
  then show ?case by simp
next
  case (Cons c calls)
  obtain idv name pages where c: "c = (idv, name, pages)" by (cases c)
  show ?case
    using Cons c by (auto split: sum.splits intro: add_working_sheet_lists_ok)
qed

lemma add_all_keys:
  "fst ` set (working_sheets (add_all calls d))
     \<subseteq> fst ` set (working_sheets d) \<union> coerce_id_to_int ` fst ` set calls"
proof (induction calls arbitrary: d)
  case Nil
  then show ?case by simp
next
  case (Cons c calls)
  obtain idv name pages where c: "c = (idv, name, pages)" by (cases c)
  show ?case
  proof (cases "add_working_sheet idv name pages d")
    case (Inl e)
    then show ?thesis using Cons[of d] c by auto
  next
    case (Inr d')
    then show ?thesis using Cons[of d'] c add_working_sheet_keys[OF Inr] by auto
  qed
qed

text \<open>
  Claim C2, as amended. After any sequence of \<open>add_working_sheet\<close> calls on a new document,
  every top-level key is the integer that the id argument of one of the calls coerces to
  (so it is at least 0 whenever every id argument coerces to a value that is at least 0),
  and every stored page list is strictly ascending, free of duplicates and made of page
  numbers that are at least 1.
\<close>

theorem add_all_invariant:
  assumes "(k, names) \<in> set (working_sheets (add_all calls (new_document fn path)))"
  shows "(\<exists>c \<in> set calls. k = coerce_id_to_int (fst c)) \<and>
         ((\<forall>c \<in> set calls. 0 \<le> key_int (coerce_id_to_int (fst c))) \<longrightarrow> 0 \<le> key_int k) \<and>
         (\<forall>(n, ps) \<in> set names. sorted_wrt (<) ps \<and> distinct ps \<and> (\<forall>p \<in> set ps. 1 \<le> p))"
proof -
  have "lists_ok (new_document fn path)" by (simp add: lists_ok_def new_document_def)
  then have ok: "lists_ok (add_all calls (new_document fn path))" by (rule add_all_lists_ok)
  have "k \<in> fst ` set (working_sheets (add_all calls (new_document fn path)))"
    using assms by force
  then have k: "\<exists>c \<in> set calls. k = coerce_id_to_int (fst c)"
    using add_all_keys[of calls "new_document fn path"] by (auto simp: new_document_def)
  have "\<forall>(n, ps) \<in> set names. pages_ok ps"
    using ok assms by (auto simp: lists_ok_def)
  then have "\<forall>(n, ps) \<in> set names. sorted_wrt (<) ps \<and> distinct ps \<and> (\<forall>p \<in> set ps. 1 \<le> p)"
    by (auto simp: pages_ok_def strict_sorted_iff)
  with k show ?thesis by auto
qed

theorem add_all_invariant_witness:
  "(IntKey 7, [(''a'', [1, 3])]) \<in> set (working_sheets (add_all
       [(PStr ''7'', ''a'', PList [PInt 3, PInt 1, PInt 3, PInt 0]), (PInt 2, ''b'', PInt 5)]
       (new_document ''f'' ''p'')))
   \<and> 0 \<le> key_int (coerce_id_to_int (PStr ''7'')) \<and> 0 \<le> key_int (coerce_id_to_int (PInt 2))
   \<and> (0::int) \<le> key_int (IntKey 7) \<and> sorted_wrt (<) [1, 3 :: int]"
  using add_all_invariant [of "IntKey 7" "[(''a'', [1, 3])]"
      "[(PStr ''7'', ''a'', PList [PInt 3, PInt 1, PInt 3, PInt 0]), (PInt 2, ''b'', PInt 5)]" "''f''" "''p''"]
  by (simp add: add_working_sheet_def new_document_def normalize_pages_def or_empty_def
      List.map_filter_def fromkeys_def coerce_id_to_int_def py_str_def strip_def is_space_def
      int_of_str_def is_int_space_def parse_nat_def is_digit_def digit_val_def)

text \<open>
  Claim C2 as stated fails: \<open>_coerce_id_to_int\<close> returns an integer argument as it is, so
  the id \<open>-5\<close> becomes the top-level key \<open>-5\<close>.
\<close>

theorem add_working_sheet_negative_key:
  "working_sheets (add_all [(PInt (- 5), ''x'', PList [PInt 1])] (new_document [] []))
     = [(IntKey (- 5), [(''x'', [1])])]"
  by (simp add: add_working_sheet_def new_document_def normalize_pages_def or_empty_def
      List.map_filter_def fromkeys_def coerce_id_to_int_def)

subsection \<open>Serialization\<close>

lemma of_char_digit_char: "d < 10 \<Longrightarrow> (of_char (digit_char d) :: nat) = 48 + d"
  by (simp add: digit_char_def)

lemma is_digit_digit_char: "d < 10 \<Longrightarrow> is_digit (digit_char d)"
  by (simp add: is_digit_def of_char_digit_char)

lemma digit_val_digit_char: "d < 10 \<Longrightarrow> digit_val (digit_char d) = d"
  by (simp add: digit_val_def of_char_digit_char)

lemma int_digits_all_digits:
  "\<forall>c \<in> set xs. is_digit c \<Longrightarrow>
     int_digits xs acc = Some (foldl (\<lambda>a c. 10 * a + digit_val c) acc xs)"
  by (induction xs arbitrary: acc) auto

lemma str_nat_digits: "\<forall>c \<in> set (str_nat n). is_digit c"
  by (induction n rule: str_nat.induct) (subst str_nat.simps, auto simp: is_digit_digit_char)

lemma str_nat_nonempty: "str_nat n \<noteq> []"
  by (subst str_nat.simps) simp

lemma str_nat_value: "foldl (\<lambda>a c. 10 * a + digit_val c) 0 (str_nat n) = n"
  by (induction n rule: str_nat.induct) (subst str_nat.simps, auto simp: digit_val_digit_char)

lemma parse_nat_str_nat: "parse_nat (str_nat n) = Some n"
proof -
  obtain c cs where cs: "str_nat n = c # cs"
    using str_nat_nonempty[of n] by (cases "str_nat n") auto
  have "is_digit c" using str_nat_digits[of n] cs by simp
  moreover have "int_digits (str_nat n) 0 = Some n"
    using int_digits_all_digits[OF str_nat_digits, of n 0] by (simp add: str_nat_value)
  ultimately show ?thesis
    using cs by (simp add: parse_nat_def del: int_digits.simps)
qed

lemma digit_not_space: "is_digit c \<Longrightarrow> \<not> is_space c \<and> \<not> is_int_space c"
  by (auto simp: is_digit_def is_space_def is_int_space_def Let_def)

lemma strip_with_none: "\<forall>c \<in> set s. \<not> P c \<Longrightarrow> rev (dropWhile P (rev (dropWhile P s))) = s"
proof -
  assume a: "\<forall>c \<in> set s. \<not> P c"
  have d: "\<And>xs. \<forall>c \<in> set xs. \<not> P c \<Longrightarrow> dropWhile P xs = xs"
    by (case_tac xs) auto
  show ?thesis using a by (simp add: d)
qed

lemma str_int_no_space: "\<forall>c \<in> set (str_int i). \<not> is_space c"
  using str_nat_digits digit_not_space
  by (auto simp: str_int_def is_space_def)

lemma str_int_no_int_space: "\<forall>c \<in> set (str_int i). \<not> is_int_space c"
  using str_nat_digits digit_not_space
  by (auto simp: str_int_def is_int_space_def)

lemma strip_str_int: "strip (str_int i) = str_int i"
  unfolding strip_def by (rule strip_with_none[OF str_int_no_space])

lemma int_of_str_str_int: "int_of_str (str_int i) = Some i"
proof (cases "i < 0")
  case True
  then show ?thesis
    by (simp add: int_of_str_def strip_with_none[OF str_int_no_int_space])
       (simp add: str_int_def parse_nat_str_nat)
next
  case False
  obtain c cs where cs: "str_nat (nat i) = c # cs"
    using str_nat_nonempty[of "nat i"] by (cases "str_nat (nat i)") auto
  have dc: "is_digit c" using str_nat_digits[of "nat i"] cs by simp
  then have "c \<noteq> CHR ''-''" "c \<noteq> CHR ''+''" by (auto simp: is_digit_def)
  moreover have "str_int i = c # cs" using False cs by (simp add: str_int_def)
  moreover have "parse_nat (c # cs) = Some (nat i)" using parse_nat_str_nat[of "nat i"] cs by simp
  ultimately show ?thesis
    using False strip_with_none[OF str_int_no_int_space, of i]
    by (simp add: int_of_str_def)
qed

lemma str_int_nonempty: "str_int i \<noteq> []"
  by (simp add: str_int_def str_nat_nonempty)

lemma coerce_str_int: "coerce_id_to_int (PStr (str_int i)) = IntKey i"
  by (simp add: coerce_id_to_int_def py_str_def strip_str_int str_int_nonempty int_of_str_str_int)
















text \<open>
  Claim C9. The spec says that \<open>from_dict\<close> returns a document for every input dictionary
  and never raises. The code checks that \<open>working_sheets\<close> and each value under an id are
  dictionaries, but it does not check the page value under a name: for the dictionary
  \<open>{"working_sheets": {"1": {"a": 5}}}\<close> the loop of \<open>_normalize_pages\<close> iterates over
  the integer 5, and the call ends with a TypeError instead of a document.
\<close>

theorem from_dict_page_value_not_iterable:
  "from_dict [(PStr ''working_sheets'', PDict [(PStr ''1'', PDict [(PStr ''a'', PInt 5)])])]
     = Inl TypeError"
  by (simp add: from_dict_def dict_get_default_def or_empty_def normalize_pages_def)

section \<open>Properties of the workbook handler\<close>

text \<open>
  Claim C4. On the header text \<open>"AB 22 / Zwangsgedanken  1/2"\<close> the header parser returns
  id 22, current 1 and total 2, but the name it returns is \<open>"/ Zwangsgedanken"\<close>: the
  \<open>.strip()\<close> calls of \<open>parse_ab_header\<close> remove white space only, so the separator
  that follows the \<open>AB 22\<close> token stays in the name.
\<close>

theorem parse_ab_header_keeps_separator:
  "parse_ab_header ''AB 22 / Zwangsgedanken  1/2'' = (Some 22, ''/ Zwangsgedanken'', Some 1, Some 2)"
  by code_simp

text \<open>
  Claim C5. The TOC parsing step, run on the blob
  \<open>"AB 5 Angstskala 12 AB 6 Vermeidungsliste 15"\<close>, yields exactly the two entries
  (id 5, name Angstskala, page 12) and (id 6, name Vermeidungsliste, page 15); the id of
  an entry is kept as the matched digit string.
\<close>

theorem parse_toc_two_entries:
  "parse_toc ''AB 5 Angstskala 12 AB 6 Vermeidungsliste 15''
     = [(''5'', ''Angstskala'', Some 12), (''6'', ''Vermeidungsliste'', Some 15)]"
  by code_simp

text \<open>
  Claim C8. With an empty page sequence \<open>identify_working_sheets\<close> returns the document
  model it was given, unchanged; the function is total, so this is also its returning
  without an exception.
\<close>

theorem identify_working_sheets_no_pages:
  "identify_working_sheets [] pdf_object = pdf_object"
  by (simp add: identify_working_sheets_def)

lemma build_blocks_done: "length pages \<le> i \<Longrightarrow> build_blocks pages header_map i = []"
  by (subst build_blocks.simps) simp

lemma build_blocks_skip:
  "i < length pages \<Longrightarrow> \<not> header_map ! i > 0 \<Longrightarrow>
     build_blocks pages header_map i = build_blocks pages header_map (Suc i)"
  by (subst build_blocks.simps) simp

lemma build_blocks_block:
  "i < length pages \<Longrightarrow> header_map ! i > 0 \<Longrightarrow>
     build_blocks pages header_map i =
       (header_map ! i, int i + 1, block_end pages header_map i)
         # build_blocks pages header_map (nat (block_end pages header_map i))"
  by (subst build_blocks.simps) (simp add: Let_def)

text \<open>
  Claim C6. For a document of 10 pages whose header labels are 7 on pages 3, 4 and 5 and
  0 (no id) on every other page, and whose page 3 carries no current/total digit pair, the
  block-building loop produces exactly the one block (7, 3, 5).
\<close>

theorem blocks_of_three_labelled_pages:
  assumes len: "length pages = 10"
    and labels: "header_map_of pages = [0, 0, 7, 7, 7, 0, 0, 0, 0, 0]"
    and no_pair: "snd (snd (parse_ab_header (pages ! 2))) = (None, None)"
  shows "build_blocks pages (header_map_of pages) 0 = [(7, 3, 5)]"
proof -
  let ?hm = "[0, 0, 7, 7, 7, 0, 0, 0, 0, 0] :: int list"
  have e: "block_end pages ?hm 2 = 5"
    using no_pair len
    by (cases "parse_ab_header (pages ! 2)") (simp add: block_end_def contiguous_end_def)
  have b0: "build_blocks pages ?hm 0 = build_blocks pages ?hm 1"
    using build_blocks_skip[of 0 pages ?hm] len by simp
  have b1: "build_blocks pages ?hm 1 = build_blocks pages ?hm 2"
    using build_blocks_skip[of 1 pages ?hm] len by (simp add: numeral_2_eq_2)
  have b2: "build_blocks pages ?hm 2 = (7, 3, 5) # build_blocks pages ?hm 5"
    using build_blocks_block[of 2 pages ?hm] len e by simp
  have b5: "build_blocks pages ?hm 5 = build_blocks pages ?hm 6"
    using build_blocks_skip[of 5 pages ?hm] len by (simp add: eval_nat_numeral)
  have b6: "build_blocks pages ?hm 6 = build_blocks pages ?hm 7"
    using build_blocks_skip[of 6 pages ?hm] len by (simp add: eval_nat_numeral)
  have b7: "build_blocks pages ?hm 7 = build_blocks pages ?hm 8"
    using build_blocks_skip[of 7 pages ?hm] len by (simp add: eval_nat_numeral)
  have b8: "build_blocks pages ?hm 8 = build_blocks pages ?hm 9"
    using build_blocks_skip[of 8 pages ?hm] len by (simp add: eval_nat_numeral)
  have b9: "build_blocks pages ?hm 9 = build_blocks pages ?hm 10"
    using build_blocks_skip[of 9 pages ?hm] len by (simp add: eval_nat_numeral)
  have b10: "build_blocks pages ?hm 10 = []"
    using build_blocks_done[of pages 10 ?hm] len by simp
  show ?thesis
    unfolding labels by (simp only: b0 b1 b2 b5 b6 b7 b8 b9 b10)
qed

theorem blocks_of_three_labelled_pages_witness:
  "length ['''', '''', ''AB 7 x'', ''AB 7'', ''AB 7'', '''', '''', '''', '''', ''''] = 10
   \<and> header_map_of ['''', '''', ''AB 7 x'', ''AB 7'', ''AB 7'', '''', '''', '''', '''', '''']
        = [0, 0, 7, 7, 7, 0, 0, 0, 0, 0]
   \<and> snd (snd (parse_ab_header (['''', '''', ''AB 7 x'', ''AB 7'', ''AB 7'', '''', '''', '''', '''', ''''] ! 2)))
        = (None, None)
   \<and> build_blocks ['''', '''', ''AB 7 x'', ''AB 7'', ''AB 7'', '''', '''', '''', '''', '''']
        (header_map_of ['''', '''', ''AB 7 x'', ''AB 7'', ''AB 7'', '''', '''', '''', '''', '''']) 0
        = [(7, 3, 5)]"
proof -
  let ?P = "['''', '''', ''AB 7 x'', ''AB 7'', ''AB 7'', '''', '''', '''', '''', '''']"
  have h1: "length ?P = 10" by simp
  have h2: "header_map_of ?P = [0, 0, 7, 7, 7, 0, 0, 0, 0, 0]" by code_simp
  have h3: "snd (snd (parse_ab_header (?P ! 2))) = (None, None)" by code_simp
  from blocks_of_three_labelled_pages [OF h1 h2 h3] h1 h2 h3 show ?thesis by blast
qed

subsection \<open>The global scan\<close>

lemma foldl_preserves:
  assumes "\<And>st x. P st \<Longrightarrow> P (f st x)" "P st"
  shows "P (foldl f st xs)"
  using assms(2) by (induction xs arbitrary: st) (auto intro: assms(1))

lemma global_step_shape:
  assumes "key_int (coerce_id_to_int (PStr (group_or_empty txt m 1))) \<notin> set ids"
  shows "\<exists>name pl. global_step pages txt (d, ids) m =
           (case add_working_sheet
                   (PStr (str_int (key_int (coerce_id_to_int (PStr (group_or_empty txt m 1))))))
                   name pl d of
              Inl e \<Rightarrow> (d, ids)
            | Inr d' \<Rightarrow> (d', key_int (coerce_id_to_int (PStr (group_or_empty txt m 1))) # ids))"
  unfolding global_step_def Let_def prod.case
  apply (simp only: assms if_False)
  apply (intro exI)
  apply (rule refl)
  done

lemma global_step_inv:
  assumes "scan_inv K F st"
  shows "scan_inv K F (global_step pages txt st m)"
proof -
  obtain d ids where st: "st = (d, ids)" by (cases st)
  define id_int where "id_int = key_int (coerce_id_to_int (PStr (group_or_empty txt m 1)))"
  show ?thesis
  proof (cases "id_int \<in> set ids")
    case True
    then show ?thesis using assms st by (simp add: global_step_def id_int_def Let_def)
  next
    case False
    then obtain name pl where g: "global_step pages txt (d, ids) m =
           (case add_working_sheet (PStr (str_int id_int)) name pl d of
              Inl e \<Rightarrow> (d, ids) | Inr d' \<Rightarrow> (d', id_int # ids))"
      using global_step_shape[of "txt" m ids pages d] unfolding id_int_def by blast
    show ?thesis
    proof (cases "add_working_sheet (PStr (str_int id_int)) name pl d")
      case (Inl e)
      then show ?thesis using g assms st by simp
    next
      case (Inr d')
      have sub: "key_int ` set K \<subseteq> set ids"
        and same: "\<forall>k \<in> set K. ws_get (working_sheets d) k = F k"
        using assms st by (auto simp: scan_inv_def)
      have ne: "\<And>k. k \<in> set K \<Longrightarrow> key_int k \<noteq> id_int" using sub False by auto
      from add_working_sheet_cases[OF Inr]
      have "\<forall>k \<in> set K. ws_get (working_sheets d') k = ws_get (working_sheets d) k"
        using ne by (auto simp: coerce_str_int ws_get_set)
      then show ?thesis
        using g Inr st sub same by (auto simp: scan_inv_def)
    qed
  qed
qed

lemma global_scan_page_inv:
  assumes "scan_inv K F st"
  shows "scan_inv K F (global_scan_page pages st txt)"
  unfolding global_scan_page_def
  using assms by (auto intro!: foldl_preserves[where P = "scan_inv K F"] global_step_inv)

text \<open>Claim C7: the global scan over all pages only adds entries for ids that are not yet in
  the model. Every id that is a key of \<open>working_sheets\<close> before the scan has, after the scan,
  exactly the bucket (names and page lists) it had before, whatever the pages contain.\<close>

theorem global_scan_keeps_existing_buckets:
  assumes "k \<in> set (dict_keys (working_sheets d))"
  shows "ws_get (working_sheets (global_scan pages d)) k = ws_get (working_sheets d) k"
proof -
  let ?K = "dict_keys (working_sheets d)"
  let ?F = "ws_get (working_sheets d)"
  have "scan_inv ?K ?F (d, map key_int ?K)" by (simp add: scan_inv_def)
  then have "scan_inv ?K ?F (foldl (global_scan_page pages) (d, map key_int ?K) pages)"
    by (rule foldl_preserves[where P = "scan_inv ?K ?F", rotated]) (rule global_scan_page_inv)
  then show ?thesis
    using assms by (simp add: scan_inv_def global_scan_def)
qed

theorem global_scan_keeps_existing_buckets_witness:
  "IntKey 3 \<in> set (dict_keys (working_sheets
       \<lparr>pdf_filename = ''f'', pdf_path = ''p'', working_sheets = [(IntKey 3, [(''Skala'', [2])])]\<rparr>))
   \<and> ws_get (working_sheets (global_scan [''AB 3 - Foo 1'', ''AB 4 - Bar 2'']
       \<lparr>pdf_filename = ''f'', pdf_path = ''p'', working_sheets = [(IntKey 3, [(''Skala'', [2])])]\<rparr>))
       (IntKey 3)
     = Some [(''Skala'', [2])]"
  using global_scan_keeps_existing_buckets [of "IntKey 3"
      "\<lparr>pdf_filename = ''f'', pdf_path = ''p'', working_sheets = [(IntKey 3, [(''Skala'', [2])])]\<rparr>"
      "[''AB 3 - Foo 1'', ''AB 4 - Bar 2'']"]
  by (simp add: dict_keys_def)

subsection \<open>The last-page estimator\<close>













text \<open>The proviso on pairs is needed: the absolute interpretation returns
  \<open>min(second, total_pages_doc)\<close> without comparing it with \<open>start_page\<close>. A pair on a page
  before \<open>start_page\<close> is never read.\<close>

lemma determine_last_page_pair_before_start:
  "determine_last_page [''x'', ''a'', ''b'', ''c'', ''1/2''] 5 None None = 2
   \<and> determine_last_page [''x'', ''y'', ''AB 22 / Zwangsgedanken  1/2''] 3 (Some 22) None = 2
   \<and> determine_last_page [''1/2'', ''x'', ''y''] 3 None None = 3"
  by code_simp

end
